theory Spec2Isabelle
  imports Main "HOL-Library.AList"
begin

section \<open>The model catalog of eternal_zoo/models.py\<close>

text \<open>
  The module consists of three module-level dictionaries: the literal table
  \<open>HASH_TO_MODEL\<close> (content hash to model name), the dictionary comprehension
  \<open>MODEL_TO_HASH\<close> that inverts it, and the literal catalog \<open>FEATURED_MODELS\<close>
  (model name to a dictionary of provisioning fields).
\<close>

subsection \<open>Python dictionaries\<close>

text \<open>
  A Python dictionary keeps its keys in insertion order; storing under a key that is
  already present replaces the value in place, storing under a new key appends.  This is
  what \<open>AList.update\<close> does on an association list.  A dictionary display
  \<^verbatim>\<open>{k1: v1, k2: v2, ...}\<close> stores its items from left to right, so a repeated
  key keeps its first position and its last value.
\<close>

type_synonym ('k, 'v) dict = "('k \<times> 'v) list"

definition dict_lit :: "('k \<times> 'v) list \<Rightarrow> ('k, 'v) dict" where
  "dict_lit kvs = foldl (\<lambda>d (k, v). AList.update k v d) [] kvs"

text \<open>\<^verbatim>\<open>d.items()\<close>, \<^verbatim>\<open>d.keys()\<close>, \<^verbatim>\<open>d.get(k)\<close> and \<^verbatim>\<open>k in d\<close>.\<close>

definition items :: "('k, 'v) dict \<Rightarrow> ('k \<times> 'v) list" where
  "items d = d"

definition keys :: "('k, 'v) dict \<Rightarrow> 'k list" where
  "keys d = map fst d"

definition lookup :: "('k, 'v) dict \<Rightarrow> 'k \<Rightarrow> 'v option" where
  "lookup d k = map_of d k"

definition has_key :: "('k, 'v) dict \<Rightarrow> 'k \<Rightarrow> bool" where
  "has_key d k = (lookup d k \<noteq> None)"

text \<open>The values stored in a catalog entry are string literals and the literal \<^verbatim>\<open>True\<close>.\<close>

datatype pyval = Str string | Bool bool

type_synonym entry = "(string, pyval) dict"

subsection \<open>The literal tables\<close>

definition HASH_TO_MODEL :: "(string, string) dict" where
  "HASH_TO_MODEL =
   dict_lit
   [(''bafkreiacd5mwy4a5wkdmvxsk42nsupes5uf4q3dm52k36mvbhgdrez422y'',
     ''qwen3-embedding-0.6b''),
    (''bafkreia7nzedkxlr6tebfxvo552zq7cba6sncloxwyivfl3tpj7hl5dz5u'',
     ''qwen3-embedding-4b''),
    (''bafkreib6pws5dx5ur6exbhulmf35twfcizdkxvup4cklzprlvaervfz5zy'',
     ''qwen3-1.7b''),
    (''bafkreiekokvzioogj5hoxgxlorqvbw2ed3w4mwieium5old5jq3iubixza'',
     ''qwen3-4b''),
    (''bafkreid5z4lddvv4qbgdlz2nqo6eumxwetwmkpesrumisx72k3ahq73zpy'',
     ''qwen3-8b''),
    (''bafkreiclwlxc56ppozipczuwkmgnlrxrerrvaubc5uhvfs3g2hp3lftrwm'',
     ''qwen3-14b''),
    (''bafkreihq4usl2t3i6pqoilvorp4up263yieuxcqs6xznlmrig365bvww5i'',
     ''qwen3-32b''),
    (''bafkreieroiopteqmtbjadlnpq3qkakdu7omvtuavs2l2qbu46ijnfdo2ly'',
     ''qwen3-30b-a3b''),
    (''bafkreie4uj3gluik5ob2ib3cm2pt6ww7n4vqpmjnq6pas4gkkor42yuysa'',
     ''qwen3-235b-a22b''),
    (''bafkreib6thkvzddxkxtgkeslioreae66uef42gtxzy4wh7cyzf6fmlq3rm'',
     ''qwen3-coder-480b-a35b''),
    (''bafkreiaevddz5ssjnbkmdrl6dzw5sugwirzi7wput7z2ttcwnvj2wiiw5q'',
     ''gemma-3-4b''),
    (''bafkreic2bkjuu3fvdoxnvusdt4in6fa6lubzhtjtmcp2zvokvfjpyndakq'',
     ''gemma-3-12b''),
    (''bafkreihi2cbsgja5dwa5nsuixicx2x3gbcnh7gsocxbmjxegtewoq2syve'',
     ''gemma-3-27b''),
    (''bafkreihz3mz422vpoy7sccwj5tujkerxbjxdlmsqqf3ridxbe3m6ipnq5i'',
     ''gemma-3n-e4b''),
    (''bafkreiaztifhss23cftya3bkorbsenzohol2oc3dvngo2srbbosko6gmme'',
     ''lfm2-1.2b''),
    (''bafkreidrdplo7mcfhrvocaa26yge6kmxmuwrexm5rffnzo5lbe6fkhjuvq'',
     ''openreasoning-nemotron-32b''),
    (''bafkreih4xgr5t7yc3yooz6i6usgpwhggaobspmgut4rnu42gi6cv77o4em'',
     ''devstral-small''),
    (''bafkreibokz6tdke7k3eozsro3hh3luyqbub7tzdawpswtt7q6bzfg36fw4'',
     ''dolphin-3.0-llama3.1-8b''),
    (''bafkreiclhnqcjfbbusqmg73jcwasomv7tqchkqm3fea5wwzs5vavc2wzfq'',
     ''gpt-oss-20b''),
    (''bafkreia4xtrb4vfsf7lblomjwh7cc3nlpci3fsqyeqpgqqflx4cnhwa3za'',
     ''gpt-oss-120b''),
    (''bafkreicyuuvaeavozddtpc3tajfejaxuvuw2cpfajtt6lsddo22gcqg2km'',
     ''hermes-4-70b''),
    (''bafkreiaha3sjfmv4affmi5kbu6bnayenf2avwafp3cthhar3latmfi632u'',
     ''flux-dev''),
    (''bafkreibks5pmc777snbo7dwk26sympe2o24tpqfedjq6gmgghwwu7iio34'',
     ''flux-schnell''),
    (''bafkreidbaksrogxispjejczfj36vtf5uzsbjt7irspl6kckynz5u2ugzke'',
     ''flux-dev-nsfw''),
    (''bafkreihiaeosw2jlyvzo7od46ihe4iwutgmppqj5d7z74g25qljlcmcikq'',
     ''flux-dev-18-loras''),
    (''bafkreidnd2n2sp3gw6c4iutvgdtupqa4qlpsznpjnwqmsna2ko3uhv4fce'',
     ''nsfw-lab''),
    (''bafkreidl2y42rs2ymhydn7gojikgv657yy73yldu3nanjsljeepen6ftsy'',
     ''lora-lab'')]"

text \<open>\<^verbatim>\<open>MODEL_TO_HASH = {model: hash for hash, model in HASH_TO_MODEL.items()}\<close>\<close>

definition MODEL_TO_HASH :: "(string, string) dict" where
  "MODEL_TO_HASH = foldl (\<lambda>d (hash, model). AList.update model hash d) [] (items HASH_TO_MODEL)"

definition FEATURED_MODELS :: "(string, entry) dict" where
  "FEATURED_MODELS =
   dict_lit
   [(''qwen3-embedding-0.6b'', dict_lit
      [(''repo'', Str ''Qwen/Qwen3-Embedding-0.6B-GGUF''),
       (''model'', Str ''Qwen3-Embedding-0.6B-Q8_0.gguf''),
       (''task'', Str ''embed''),
       (''backend'', Str ''gguf'')]),
    (''qwen3-embedding-4b'', dict_lit
      [(''repo'', Str ''Qwen/Qwen3-Embedding-4B-GGUF''),
       (''model'', Str ''Qwen3-Embedding-4B-Q8_0.gguf''),
       (''task'', Str ''embed''),
       (''backend'', Str ''gguf'')]),
    (''qwen3-1.7b'', dict_lit
      [(''repo'', Str ''Qwen/Qwen3-1.7B-GGUF''),
       (''model'', Str ''Qwen3-1.7B-Q8_0.gguf''),
       (''task'', Str ''chat''),
       (''backend'', Str ''gguf'')]),
    (''qwen3-4b'', dict_lit
      [(''repo'', Str ''Qwen/Qwen3-4B-GGUF''),
       (''model'', Str ''Qwen3-4B-Q8_0.gguf''),
       (''task'', Str ''chat''),
       (''backend'', Str ''gguf'')]),
    (''qwen3-8b'', dict_lit
      [(''repo'', Str ''Qwen/Qwen3-8B-GGUF''),
       (''model'', Str ''Qwen3-8B-Q8_0.gguf''),
       (''task'', Str ''chat''),
       (''backend'', Str ''gguf'')]),
    (''qwen3-14b'', dict_lit
      [(''repo'', Str ''Qwen/Qwen3-14B-GGUF''),
       (''model'', Str ''Qwen3-14B-Q8_0.gguf''),
       (''task'', Str ''chat''),
       (''backend'', Str ''gguf'')]),
    (''qwen3-32b'', dict_lit
      [(''repo'', Str ''Qwen/Qwen3-32B-GGUF''),
       (''model'', Str ''Qwen3-32B-Q8_0.gguf''),
       (''task'', Str ''chat''),
       (''backend'', Str ''gguf'')]),
    (''qwen3-30b-a3b'', dict_lit
      [(''repo'', Str ''Qwen/Qwen3-30B-GGUF''),
       (''model'', Str ''Qwen3-30B-A3B-Q8_0.gguf''),
       (''task'', Str ''chat''),
       (''backend'', Str ''gguf'')]),
    (''qwen3-30b-a3b-instruct-2507'', dict_lit
      [(''repo'', Str ''unsloth/Qwen3-30B-A3B-Instruct-2507-GGUF''),
       (''model'', Str ''Qwen3-30B-A3B-Instruct-2507-Q8_0.gguf''),
       (''task'', Str ''chat''),
       (''backend'', Str ''gguf'')]),
    (''qwen3-30b-a3b-thinking-2507'', dict_lit
      [(''repo'', Str ''unsloth/Qwen3-30B-A3B-Thinking-2507-GGUF''),
       (''model'', Str ''Qwen3-30B-A3B-Thinking-2507-Q8_0.gguf''),
       (''task'', Str ''chat''),
       (''backend'', Str ''gguf'')]),
    (''qwen3-coder-30b-a3b-instruct'', dict_lit
      [(''repo'', Str ''unsloth/Qwen3-Coder-30B-A3B-Instruct-GGUF''),
       (''model'', Str ''Qwen3-Coder-30B-A3B-Instruct-Q8_0.gguf''),
       (''task'', Str ''chat''),
       (''backend'', Str ''gguf'')]),
    (''qwen3-235b-a22b'', dict_lit
      [(''repo'', Str ''unsloth/Qwen3-235B-A22B-Instruct-2507-GGUF''),
       (''pattern'', Str ''Q4_K_M''),
       (''task'', Str ''chat''),
       (''backend'', Str ''gguf'')]),
    (''qwen3-coder-480b-a35b'', dict_lit
      [(''repo'', Str ''unsloth/Qwen3-Coder-480B-A35B-Instruct-GGUF''),
       (''pattern'', Str ''Q4_K_M''),
       (''task'', Str ''chat''),
       (''backend'', Str ''gguf'')]),
    (''gemma-3-4b'', dict_lit
      [(''repo'', Str ''lmstudio-community/gemma-3-4B-it-qat-GGUF''),
       (''model'', Str ''gemma-3-4B-it-QAT-Q4_0.gguf''),
       (''projector'', Str ''mmproj-model-f16.gguf''),
       (''task'', Str ''chat''),
       (''backend'', Str ''gguf'')]),
    (''gemma-3-12b'', dict_lit
      [(''repo'', Str ''lmstudio-community/gemma-3-12B-it-qat-GGUF''),
       (''model'', Str ''gemma-3-12B-it-QAT-Q4_0.gguf''),
       (''projector'', Str ''mmproj-model-f16.gguf''),
       (''task'', Str ''chat''),
       (''backend'', Str ''gguf'')]),
    (''gemma-3-27b'', dict_lit
      [(''repo'', Str ''lmstudio-community/gemma-3-27B-it-qat-GGUF''),
       (''model'', Str ''gemma-3-27B-it-QAT-Q4_0.gguf''),
       (''projector'', Str ''mmproj-model-f16.gguf''),
       (''task'', Str ''chat''),
       (''backend'', Str ''gguf'')]),
    (''gemma-3n-e4b'', dict_lit
      [(''repo'', Str ''unsloth/gemma-3n-E4B-it-GGUF''),
       (''model'', Str ''gemma-3n-E4B-it-Q8_0.gguf''),
       (''task'', Str ''chat''),
       (''backend'', Str ''gguf'')]),
    (''lfm2-1.2b'', dict_lit
      [(''repo'', Str ''LiquidAI/LFM2-1.2B-GGUF''),
       (''model'', Str ''LFM2-1.2B-Q8_0.gguf''),
       (''task'', Str ''chat''),
       (''backend'', Str ''gguf'')]),
    (''openreasoning-nemotron-32b'', dict_lit
      [(''repo'', Str ''lmstudio-community/OpenReasoning-Nemotron-32B-GGUF''),
       (''model'', Str ''OpenReasoning-Nemotron-32B-Q8_0.gguf''),
       (''task'', Str ''chat''),
       (''backend'', Str ''gguf'')]),
    (''devstral-small'', dict_lit
      [(''repo'', Str ''mistralai/Devstral-Small-2507_gguf''),
       (''model'', Str ''Devstral-Small-2507-Q8_0.gguf''),
       (''task'', Str ''chat''),
       (''backend'', Str ''gguf'')]),
    (''dolphin-3.0-llama3.1-8b'', dict_lit
      [(''repo'', Str ''dphn/Dolphin3.0-Llama3.1-8B-GGUF''),
       (''model'', Str ''Dolphin3.0-Llama3.1-8B-Q8_0.gguf''),
       (''task'', Str ''chat''),
       (''backend'', Str ''gguf'')]),
    (''gpt-oss-20b'', dict_lit
      [(''repo'', Str ''bartowski/openai_gpt-oss-20b-GGUF-MXFP4-Experimental''),
       (''model'', Str ''openai_gpt-oss-20b-MXFP4.gguf''),
       (''task'', Str ''chat''),
       (''backend'', Str ''gguf'')]),
    (''gpt-oss-120b'', dict_lit
      [(''repo'', Str ''ggml-org/gpt-oss-120b-GGUF''),
       (''pattern'', Str ''mxfp4''),
       (''task'', Str ''chat''),
       (''backend'', Str ''gguf'')]),
    (''gpt-oss-20b-mlx'', dict_lit
      [(''hf-repo'', Str ''lmstudio-community/gpt-oss-20b-GGUF''),
       (''task'', Str ''chat''),
       (''backend'', Str ''mlx-lm'')]),
    (''hermes-4-14b'', dict_lit
      [(''repo'', Str ''bartowski/NousResearch_Hermes-4-14B-GGUF''),
       (''model'', Str ''NousResearch_Hermes-4-14B-Q4_K_M.gguf''),
       (''task'', Str ''chat''),
       (''backend'', Str ''gguf'')]),
    (''hermes-4-70b'', dict_lit
      [(''repo'', Str ''bartowski/NousResearch_Hermes-4-70B-GGUF''),
       (''model'', Str ''NousResearch_Hermes-4-14B-Q8_0.gguf''),
       (''task'', Str ''chat''),
       (''backend'', Str ''gguf'')]),
    (''hermes-4-405b'', dict_lit
      [(''repo'', Str ''lmstudio-community/Hermes-4-405B-GGUF''),
       (''pattern'', Str ''Q4_K_M''),
       (''task'', Str ''chat''),
       (''backend'', Str ''gguf'')]),
    (''flux-dev'', dict_lit
      [(''repo'', Str ''NikolaSigmoid/FLUX.1-dev''),
       (''task'', Str ''image-generation''),
       (''architecture'', Str ''flux-dev''),
       (''backend'', Str ''mlx-flux'')]),
    (''flux-schnell'', dict_lit
      [(''repo'', Str ''NikolaSigmoid/FLUX.1-schnell''),
       (''task'', Str ''image-generation''),
       (''architecture'', Str ''flux-schnell''),
       (''backend'', Str ''mlx-flux'')]),
    (''flux-krea-dev'', dict_lit
      [(''repo'', Str ''NikolaSigmoid/FLUX.1-Krea-dev''),
       (''task'', Str ''image-generation''),
       (''architecture'', Str ''flux-dev''),
       (''backend'', Str ''mlx-flux'')]),
    (''flux-dev-nsfw'', dict_lit
      [(''repo'', Str ''NikolaSigmoid/FLUX.1-dev-NSFW-Master''),
       (''task'', Str ''image-generation''),
       (''lora'', Bool True),
       (''base_model'', Str ''flux-dev''),
       (''architecture'', Str ''flux-dev''),
       (''backend'', Str ''mlx-flux'')]),
    (''flux-dev-18-loras'', dict_lit
      [(''repo'', Str ''NikolaSigmoid/FLUX.1-dev-18-loras''),
       (''task'', Str ''image-generation''),
       (''lora'', Bool True),
       (''base_model'', Str ''flux-dev''),
       (''architecture'', Str ''flux-dev''),
       (''backend'', Str ''mlx-flux'')]),
    (''nsfw-lab'', dict_lit
      [(''repo'', Str ''NikolaSigmoid/NSFW-Lab''),
       (''task'', Str ''image-generation''),
       (''lora'', Bool True),
       (''base_model'', Str ''flux-schnell''),
       (''architecture'', Str ''flux-schnell''),
       (''backend'', Str ''mlx-flux'')]),
    (''lora-lab'', dict_lit
      [(''repo'', Str ''NikolaSigmoid/lora-lab''),
       (''task'', Str ''image-generation''),
       (''lora'', Bool True),
       (''base_model'', Str ''flux-dev''),
       (''architecture'', Str ''flux-dev''),
       (''backend'', Str ''mlx-flux'')])]"

subsection \<open>Lookup operations\<close>

text \<open>
  The module itself defines no functions: callers subscript the three dictionaries.  The
  operations \<open>resolveHash\<close>, \<open>resolveName\<close> and \<open>get\<close> and their error kinds are
  described by the specification only.
\<close>

text \<open>Modelled from the spec: the error kinds of section 7; the source declares none.\<close>

datatype error =
    DuplicateHash
  | DuplicateModelName
  | UnknownHash
  | UnknownModel
  | NoHashForModel
  | MissingRequiredField
  | ConflictingSelector
  | DanglingBaseModel

text \<open>Modelled from the spec: \<open>resolveHash(hash) -> modelName\<close>, which "fails with
  UnknownHash if the hash is not registered".  The function is missing from the source;
  the table it reads is the source's \<open>HASH_TO_MODEL\<close>.
\<close>

definition resolveHash :: "string \<Rightarrow> error + string" where
  "resolveHash h =
     (case lookup HASH_TO_MODEL h of None \<Rightarrow> Inl UnknownHash | Some n \<Rightarrow> Inr n)"

text \<open>Modelled from the spec: \<open>resolveName(modelName) -> hash\<close>, which "fails with
  NoHashForModel if the name has no published hash".  The function is missing from the
  source; the table it reads is the source's \<open>MODEL_TO_HASH\<close>.
\<close>

definition resolveName :: "string \<Rightarrow> error + string" where
  "resolveName n =
     (case lookup MODEL_TO_HASH n of None \<Rightarrow> Inl NoHashForModel | Some h \<Rightarrow> Inr h)"

text \<open>Modelled from the spec: \<open>get(modelName) -> entry\<close>, which "fails with UnknownModel
  if absent".  The function is missing from the source; the table it reads is the
  source's \<open>FEATURED_MODELS\<close>.
\<close>

definition get :: "string \<Rightarrow> error + entry" where
  "get n =
     (case lookup FEATURED_MODELS n of None \<Rightarrow> Inl UnknownModel | Some e \<Rightarrow> Inr e)"

section \<open>Properties of dictionary displays and comprehensions\<close>

text \<open>
  These hold for every display, whatever its items: the dictionary built has distinct
  keys, every item of it is an item of the display, its keys are the display's keys, and
  a lookup finds the last item written under the key.
\<close>

lemma set_update_subset: "set (AList.update k v al) \<subseteq> insert (k, v) (set al)"
  by (induction al) auto

lemma foldl_update_subset:
  "set (foldl (\<lambda>d (k, v). AList.update k v d) acc kvs) \<subseteq> set acc \<union> set kvs"
proof (induction kvs arbitrary: acc)
  case Nil
  show ?case by simp
next
  case (Cons p kvs)
  obtain k v where p: "p = (k, v)" by (cases p)
  have "set (foldl (\<lambda>d (k, v). AList.update k v d) (AList.update k v acc) kvs)
          \<subseteq> set (AList.update k v acc) \<union> set kvs"
    by (rule Cons.IH)
  with set_update_subset [of k v acc] show ?case
    unfolding p by auto
qed

lemma items_dict_lit_subset: "set (items (dict_lit kvs)) \<subseteq> set kvs"
  using foldl_update_subset [of "[]" kvs] by (simp add: items_def dict_lit_def)

lemma list_all_dict_lit: "list_all P kvs \<Longrightarrow> list_all P (items (dict_lit kvs))"
  using items_dict_lit_subset [of kvs] by (auto simp: list_all_iff)

lemma foldl_update_distinct:
  "distinct (map fst acc) \<Longrightarrow>
   distinct (map fst (foldl (\<lambda>d (k, v). AList.update k v d) acc kvs))"
  by (induction kvs arbitrary: acc) (auto simp: distinct_update)

lemma keys_dict_lit_distinct: "distinct (keys (dict_lit kvs))"
  using foldl_update_distinct [of "[]" kvs] by (simp add: keys_def dict_lit_def)

lemma foldl_update_map_of:
  "map_of (foldl (\<lambda>d (k, v). AList.update k v d) acc kvs) = map_of (rev kvs @ acc)"
proof (induction kvs arbitrary: acc)
  case Nil
  show ?case by simp
next
  case (Cons p kvs)
  obtain k v where p: "p = (k, v)" by (cases p)
  have "map_of (foldl (\<lambda>d (k, v). AList.update k v d) (AList.update k v acc) kvs)
          = map_of (rev kvs @ AList.update k v acc)"
    by (rule Cons.IH)
  then show ?case
    unfolding p by (simp add: update_conv')
qed

lemma lookup_dict_lit: "lookup (dict_lit kvs) k = map_of (rev kvs) k"
  using foldl_update_map_of [of "[]" kvs] by (simp add: lookup_def dict_lit_def)

lemma has_key_iff: "has_key d k \<longleftrightarrow> k \<in> set (keys d)"
  by (simp add: has_key_def lookup_def keys_def map_of_eq_None_iff)

lemma has_key_dict_lit: "has_key (dict_lit kvs) k \<longleftrightarrow> k \<in> set (map fst kvs)"
  by (simp add: has_key_def lookup_dict_lit map_of_eq_None_iff)

lemma lookup_items: "lookup d k = Some v \<Longrightarrow> (k, v) \<in> set (items d)"
  by (simp add: lookup_def items_def map_of_SomeD)

lemma lookup_iff:
  "distinct (keys d) \<Longrightarrow> lookup d k = Some v \<longleftrightarrow> (k, v) \<in> set (items d)"
  by (simp add: lookup_def keys_def items_def)

lemma has_key_lookup: "has_key d k \<Longrightarrow> \<exists>v. lookup d k = Some v"
  by (simp add: has_key_def)

text \<open>
  The comprehension \<^verbatim>\<open>{model: hash for hash, model in d.items()}\<close> stores the
  swapped items from left to right.  When no value of \<open>d\<close> repeats, no store overwrites
  another, and the result is the list of swapped items.
\<close>

lemma update_fresh: "k \<notin> fst ` set al \<Longrightarrow> AList.update k v al = al @ [(k, v)]"
  by (induction al) auto

lemma foldl_invert:
  "distinct (map fst acc @ map snd kvs) \<Longrightarrow>
   foldl (\<lambda>d (hash, model). AList.update model hash d) acc kvs
     = acc @ map (\<lambda>(hash, model). (model, hash)) kvs"
proof (induction kvs arbitrary: acc)
  case Nil
  show ?case by simp
next
  case (Cons p kvs)
  obtain h m where p: "p = (h, m)" by (cases p)
  from Cons.prems have fresh: "m \<notin> fst ` set acc"
    and rest: "distinct (map fst (acc @ [(m, h)]) @ map snd kvs)"
    unfolding p by auto
  have "foldl (\<lambda>d (hash, model). AList.update model hash d) (acc @ [(m, h)]) kvs
          = (acc @ [(m, h)]) @ map (\<lambda>(hash, model). (model, hash)) kvs"
    by (rule Cons.IH [OF rest])
  then show ?case
    unfolding p by (simp add: update_fresh [OF fresh])
qed

section \<open>Evaluating the tables\<close>

text \<open>
  The tables hold long string literals.  The rules below compare two literals from the
  left and stop at the first character that differs, and walk an association list one
  item at a time; the simplifier is given these rules only.
\<close>

lemma cons_eq_same: "(x # xs = x # ys) = (xs = ys)"
  by simp

lemma cons_eq_diff: "x \<noteq> y \<Longrightarrow> (x # xs = y # ys) = False"
  by simp

lemma cons_eq_nil: "(x # xs = []) = False" "([] = x # xs) = False"
  by simp_all

lemma in_set_same: "(x \<in> set (x # ys)) = True"
  by simp

lemma in_set_diff: "x \<noteq> y \<Longrightarrow> (x \<in> set (y # ys)) = (x \<in> set ys)"
  by simp

lemma in_set_nil: "(x \<in> set []) = False"
  by simp

lemma map_of_same: "map_of ((k, v) # ps) k = Some v"
  by simp

lemma map_of_diff: "k \<noteq> k' \<Longrightarrow> map_of ((k', v) # ps) k = map_of ps k"
  by simp

lemma map_of_nil: "map_of [] k = None"
  by simp

lemma update_same: "AList.update k v ((k, v') # ps) = (k, v) # ps"
  by simp

lemma update_diff:
  "k \<noteq> k' \<Longrightarrow> AList.update k v ((k', v') # ps) = (k', v') # AList.update k v ps"
  by simp

lemma update_nil: "AList.update k v [] = [(k, v)]"
  by simp

lemmas str_eval = cons_eq_same cons_eq_diff cons_eq_nil char.inject simp_thms

lemmas dict_eval = str_eval in_set_same in_set_diff in_set_nil
  map_of_same map_of_diff map_of_nil update_same update_diff update_nil
  foldl_Nil foldl_Cons prod.case fst_conv snd_conv list.map list.pred_inject
  distinct.simps rev.simps append.simps
  option.inject option.distinct pyval.inject pyval.distinct
  dict_lit_def items_def keys_def lookup_def has_key_def

section \<open>The hash table and its inverse\<close>

lemma HASH_TO_MODEL_keys_distinct: "distinct (keys HASH_TO_MODEL)"
  unfolding HASH_TO_MODEL_def by (rule keys_dict_lit_distinct)

lemma HASH_TO_MODEL_values_distinct: "distinct (map snd (items HASH_TO_MODEL))"
  unfolding HASH_TO_MODEL_def by (simp only: dict_eval)

lemma MODEL_TO_HASH_items:
  "items MODEL_TO_HASH = map (\<lambda>(hash, model). (model, hash)) (items HASH_TO_MODEL)"
  using foldl_invert [of "[]" "items HASH_TO_MODEL"] HASH_TO_MODEL_values_distinct
  by (simp add: MODEL_TO_HASH_def items_def)

lemma MODEL_TO_HASH_keys: "keys MODEL_TO_HASH = map snd (items HASH_TO_MODEL)"
proof -
  have "keys MODEL_TO_HASH = map fst (items MODEL_TO_HASH)"
    by (simp add: keys_def items_def)
  also have "\<dots> = map snd (items HASH_TO_MODEL)"
    unfolding MODEL_TO_HASH_items by (simp add: case_prod_beta)
  finally show ?thesis .
qed

lemma MODEL_TO_HASH_keys_distinct: "distinct (keys MODEL_TO_HASH)"
  unfolding MODEL_TO_HASH_keys by (rule HASH_TO_MODEL_values_distinct)

lemma lookup_inverse: "lookup MODEL_TO_HASH n = Some h \<longleftrightarrow> lookup HASH_TO_MODEL h = Some n"
proof -
  have "lookup MODEL_TO_HASH n = Some h \<longleftrightarrow> (n, h) \<in> set (items MODEL_TO_HASH)"
    by (rule lookup_iff [OF MODEL_TO_HASH_keys_distinct])
  also have "\<dots> \<longleftrightarrow> (h, n) \<in> set (items HASH_TO_MODEL)"
    unfolding MODEL_TO_HASH_items by auto
  also have "\<dots> \<longleftrightarrow> lookup HASH_TO_MODEL h = Some n"
    by (rule lookup_iff [OF HASH_TO_MODEL_keys_distinct, symmetric])
  finally show ?thesis .
qed

lemma lookup_qwen3_embedding_hash:
  "lookup HASH_TO_MODEL ''bafkreiacd5mwy4a5wkdmvxsk42nsupes5uf4q3dm52k36mvbhgdrez422y''
     = Some ''qwen3-embedding-0.6b''"
  unfolding HASH_TO_MODEL_def lookup_dict_lit by (simp only: dict_eval)

lemma lookup_lora_lab_hash:
  "lookup HASH_TO_MODEL ''bafkreidl2y42rs2ymhydn7gojikgv657yy73yldu3nanjsljeepen6ftsy''
     = Some ''lora-lab''"
  unfolding HASH_TO_MODEL_def lookup_dict_lit by (simp only: dict_eval)

text \<open>
  C1.  For every hash \<open>h\<close> that is a key of \<open>HASH_TO_MODEL\<close>, the name
  \<open>n = HASH_TO_MODEL[h]\<close> is a key of the reverse map and \<open>MODEL_TO_HASH[n]\<close> is
  \<open>h\<close> again: the forward and reverse lookups round-trip.
\<close>

theorem hash_name_roundtrip:
  assumes "has_key HASH_TO_MODEL h"
  shows "\<exists>n. lookup HASH_TO_MODEL h = Some n \<and> lookup MODEL_TO_HASH n = Some h"
proof -
  from has_key_lookup [OF assms] obtain n where n: "lookup HASH_TO_MODEL h = Some n" ..
  then have "lookup MODEL_TO_HASH n = Some h"
    by (simp only: lookup_inverse)
  with n show ?thesis
    by (intro exI conjI)
qed

theorem hash_name_roundtrip_witness:
  "has_key HASH_TO_MODEL ''bafkreiacd5mwy4a5wkdmvxsk42nsupes5uf4q3dm52k36mvbhgdrez422y''
   \<and> lookup MODEL_TO_HASH ''qwen3-embedding-0.6b''
       = Some ''bafkreiacd5mwy4a5wkdmvxsk42nsupes5uf4q3dm52k36mvbhgdrez422y''"
proof -
  have k: "has_key HASH_TO_MODEL ''bafkreiacd5mwy4a5wkdmvxsk42nsupes5uf4q3dm52k36mvbhgdrez422y''"
    unfolding has_key_def lookup_qwen3_embedding_hash by (rule option.distinct)
  from hash_name_roundtrip [OF k] obtain n
    where n: "lookup HASH_TO_MODEL ''bafkreiacd5mwy4a5wkdmvxsk42nsupes5uf4q3dm52k36mvbhgdrez422y''
                = Some n"
      and m: "lookup MODEL_TO_HASH n
                = Some ''bafkreiacd5mwy4a5wkdmvxsk42nsupes5uf4q3dm52k36mvbhgdrez422y''"
    by (elim exE conjE)
  from n have "n = ''qwen3-embedding-0.6b''"
    unfolding lookup_qwen3_embedding_hash by (simp only: option.inject)
  with m k show ?thesis
    by (simp only: simp_thms)
qed

text \<open>
  C2.  The hash-to-name table is a bijection: two distinct keys of \<open>HASH_TO_MODEL\<close>
  never carry the same name, two distinct keys of \<open>MODEL_TO_HASH\<close> never carry the same
  hash, and \<open>MODEL_TO_HASH\<close> is the forward table with every item swapped, in the same
  order (derived from it, not written separately).
\<close>

theorem hash_name_bijection:
  "(\<forall>h1 h2 n1 n2. lookup HASH_TO_MODEL h1 = Some n1 \<longrightarrow> lookup HASH_TO_MODEL h2 = Some n2
        \<longrightarrow> h1 \<noteq> h2 \<longrightarrow> n1 \<noteq> n2)
   \<and> (\<forall>n1 n2 h1 h2. lookup MODEL_TO_HASH n1 = Some h1 \<longrightarrow> lookup MODEL_TO_HASH n2 = Some h2
        \<longrightarrow> n1 \<noteq> n2 \<longrightarrow> h1 \<noteq> h2)
   \<and> items MODEL_TO_HASH = map (\<lambda>(hash, model). (model, hash)) (items HASH_TO_MODEL)"
proof (intro conjI allI impI)
  fix h1 h2 n1 n2
  assume a: "lookup HASH_TO_MODEL h1 = Some n1" and b: "lookup HASH_TO_MODEL h2 = Some n2"
    and ne: "h1 \<noteq> h2"
  show "n1 \<noteq> n2"
  proof
    assume "n1 = n2"
    with a b have "lookup MODEL_TO_HASH n1 = Some h1" "lookup MODEL_TO_HASH n1 = Some h2"
      by (simp_all add: lookup_inverse)
    with ne show False by simp
  qed
next
  fix n1 n2 h1 h2
  assume a: "lookup MODEL_TO_HASH n1 = Some h1" and b: "lookup MODEL_TO_HASH n2 = Some h2"
    and ne: "n1 \<noteq> n2"
  show "h1 \<noteq> h2"
  proof
    assume "h1 = h2"
    with a b have "lookup HASH_TO_MODEL h1 = Some n1" "lookup HASH_TO_MODEL h1 = Some n2"
      by (simp_all add: lookup_inverse)
    with ne show False by simp
  qed
next
  show "items MODEL_TO_HASH = map (\<lambda>(hash, model). (model, hash)) (items HASH_TO_MODEL)"
    by (rule MODEL_TO_HASH_items)
qed

theorem hash_name_bijection_witness:
  "lookup HASH_TO_MODEL ''bafkreiacd5mwy4a5wkdmvxsk42nsupes5uf4q3dm52k36mvbhgdrez422y''
     = Some ''qwen3-embedding-0.6b''
   \<and> lookup HASH_TO_MODEL ''bafkreidl2y42rs2ymhydn7gojikgv657yy73yldu3nanjsljeepen6ftsy''
     = Some ''lora-lab''
   \<and> ''bafkreiacd5mwy4a5wkdmvxsk42nsupes5uf4q3dm52k36mvbhgdrez422y''
     \<noteq> ''bafkreidl2y42rs2ymhydn7gojikgv657yy73yldu3nanjsljeepen6ftsy''
   \<and> ''qwen3-embedding-0.6b'' \<noteq> ''lora-lab''
   \<and> lookup MODEL_TO_HASH ''qwen3-embedding-0.6b''
     = Some ''bafkreiacd5mwy4a5wkdmvxsk42nsupes5uf4q3dm52k36mvbhgdrez422y''
   \<and> lookup MODEL_TO_HASH ''lora-lab''
     = Some ''bafkreidl2y42rs2ymhydn7gojikgv657yy73yldu3nanjsljeepen6ftsy''"
proof -
  note a = lookup_qwen3_embedding_hash and b = lookup_lora_lab_hash
  have ne: "''bafkreiacd5mwy4a5wkdmvxsk42nsupes5uf4q3dm52k36mvbhgdrez422y''
     \<noteq> ''bafkreidl2y42rs2ymhydn7gojikgv657yy73yldu3nanjsljeepen6ftsy''"
    by (simp only: str_eval)
  from hash_name_bijection have fwd:
    "\<And>h1 h2 n1 n2. lookup HASH_TO_MODEL h1 = Some n1 \<Longrightarrow> lookup HASH_TO_MODEL h2 = Some n2
       \<Longrightarrow> h1 \<noteq> h2 \<Longrightarrow> n1 \<noteq> n2"
    and bwd:
    "\<And>n1 n2 h1 h2. lookup MODEL_TO_HASH n1 = Some h1 \<Longrightarrow> lookup MODEL_TO_HASH n2 = Some h2
       \<Longrightarrow> n1 \<noteq> n2 \<Longrightarrow> h1 \<noteq> h2"
    by blast+
  have names: "''qwen3-embedding-0.6b'' \<noteq> ''lora-lab''"
    by (rule fwd [OF a b ne])
  have a': "lookup MODEL_TO_HASH ''qwen3-embedding-0.6b''
       = Some ''bafkreiacd5mwy4a5wkdmvxsk42nsupes5uf4q3dm52k36mvbhgdrez422y''"
    unfolding lookup_inverse by (rule a)
  have b': "lookup MODEL_TO_HASH ''lora-lab''
       = Some ''bafkreidl2y42rs2ymhydn7gojikgv657yy73yldu3nanjsljeepen6ftsy''"
    unfolding lookup_inverse by (rule b)
  have hashes: "''bafkreiacd5mwy4a5wkdmvxsk42nsupes5uf4q3dm52k36mvbhgdrez422y''
       \<noteq> ''bafkreidl2y42rs2ymhydn7gojikgv657yy73yldu3nanjsljeepen6ftsy''"
    by (rule bwd [OF a' b' names])
  from a b hashes names a' b' show ?thesis
    by (intro conjI)
qed

section \<open>The catalog\<close>

lemma hash_names_catalogued:
  "list_all (\<lambda>(h, n). has_key FEATURED_MODELS n) (items HASH_TO_MODEL)"
  unfolding HASH_TO_MODEL_def FEATURED_MODELS_def has_key_dict_lit
  by (rule list_all_dict_lit) (simp only: dict_eval)

lemma gpt_oss_20b_mlx_unhashed:
  "list_all (\<lambda>(h, n). n \<noteq> ''gpt-oss-20b-mlx'') (items HASH_TO_MODEL)"
  unfolding HASH_TO_MODEL_def
  by (rule list_all_dict_lit) (simp only: dict_eval)

lemma gpt_oss_20b_mlx_catalogued: "has_key FEATURED_MODELS ''gpt-oss-20b-mlx''"
  unfolding FEATURED_MODELS_def has_key_dict_lit by (simp only: dict_eval)

lemma gpt_oss_20b_mlx_no_hash: "lookup HASH_TO_MODEL h \<noteq> Some ''gpt-oss-20b-mlx''"
proof
  assume "lookup HASH_TO_MODEL h = Some ''gpt-oss-20b-mlx''"
  then have "(h, ''gpt-oss-20b-mlx'') \<in> set (items HASH_TO_MODEL)"
    by (rule lookup_items)
  with gpt_oss_20b_mlx_unhashed show False
    unfolding list_all_iff by fast
qed

lemma gpt_oss_20b_mlx_not_reverse_key: "\<not> has_key MODEL_TO_HASH ''gpt-oss-20b-mlx''"
proof
  assume "has_key MODEL_TO_HASH ''gpt-oss-20b-mlx''"
  from has_key_lookup [OF this] obtain h
    where "lookup MODEL_TO_HASH ''gpt-oss-20b-mlx'' = Some h" ..
  then have "lookup HASH_TO_MODEL h = Some ''gpt-oss-20b-mlx''"
    by (simp only: lookup_inverse)
  with gpt_oss_20b_mlx_no_hash show False ..
qed

text \<open>
  C3.  Every name that a hash of \<open>HASH_TO_MODEL\<close> resolves to is a key of the catalog
  \<open>FEATURED_MODELS\<close>.  The converse does not hold: the catalog has a key that no hash
  resolves to.
\<close>

theorem hash_names_in_catalog:
  "(\<forall>h n. lookup HASH_TO_MODEL h = Some n \<longrightarrow> has_key FEATURED_MODELS n)
   \<and> (\<exists>n. has_key FEATURED_MODELS n \<and> (\<forall>h. lookup HASH_TO_MODEL h \<noteq> Some n))"
proof (intro conjI allI impI)
  fix h n
  assume "lookup HASH_TO_MODEL h = Some n"
  then have "(h, n) \<in> set (items HASH_TO_MODEL)"
    by (rule lookup_items)
  with hash_names_catalogued show "has_key FEATURED_MODELS n"
    unfolding list_all_iff by fast
next
  from gpt_oss_20b_mlx_catalogued gpt_oss_20b_mlx_no_hash
  show "\<exists>n. has_key FEATURED_MODELS n \<and> (\<forall>h. lookup HASH_TO_MODEL h \<noteq> Some n)"
    by (intro exI conjI allI)
qed

theorem hash_names_in_catalog_witness:
  "lookup HASH_TO_MODEL ''bafkreidl2y42rs2ymhydn7gojikgv657yy73yldu3nanjsljeepen6ftsy''
     = Some ''lora-lab''
   \<and> has_key FEATURED_MODELS ''lora-lab''"
proof -
  from hash_names_in_catalog have
    "\<And>h n. lookup HASH_TO_MODEL h = Some n \<Longrightarrow> has_key FEATURED_MODELS n"
    by (elim conjE allE impE)
  from this [OF lookup_lora_lab_hash] lookup_lora_lab_hash show ?thesis
    by (intro conjI)
qed

subsection \<open>LoRA entries\<close>

lemma lora_entries:
  "list_all (\<lambda>(n, e). lookup e ''lora'' = Some (Bool True) \<longrightarrow>
      (lookup e ''base_model'' = Some (Str ''flux-dev'')
         \<or> lookup e ''base_model'' = Some (Str ''flux-schnell''))
      \<and> lookup e ''architecture'' = lookup e ''base_model''
      \<and> lookup e ''backend'' = Some (Str ''mlx-flux'')
      \<and> lookup e ''task'' = Some (Str ''image-generation''))
    (items FEATURED_MODELS)"
  unfolding FEATURED_MODELS_def
  by (rule list_all_dict_lit) (simp only: dict_eval)

lemma flux_base_entries:
  "list_all (\<lambda>(n, e). n = ''flux-dev'' \<or> n = ''flux-schnell'' \<longrightarrow>
      lookup e ''lora'' = None \<and> lookup e ''architecture'' = Some (Str n))
    (items FEATURED_MODELS)"
  unfolding FEATURED_MODELS_def
  by (rule list_all_dict_lit) (simp only: dict_eval)

lemma flux_dev_catalogued: "has_key FEATURED_MODELS ''flux-dev''"
  unfolding FEATURED_MODELS_def has_key_dict_lit by (simp only: dict_eval)

lemma flux_schnell_catalogued: "has_key FEATURED_MODELS ''flux-schnell''"
  unfolding FEATURED_MODELS_def has_key_dict_lit by (simp only: dict_eval)

lemma flux_base_lookup:
  assumes "b = ''flux-dev'' \<or> b = ''flux-schnell''"
  shows "\<exists>be. lookup FEATURED_MODELS b = Some be \<and> lookup be ''lora'' = None
            \<and> lookup be ''architecture'' = Some (Str b)"
proof -
  from assms flux_dev_catalogued flux_schnell_catalogued have "has_key FEATURED_MODELS b"
    by (elim disjE) (simp_all only:)
  from has_key_lookup [OF this] obtain be where be: "lookup FEATURED_MODELS b = Some be" ..
  then have "(b, be) \<in> set (items FEATURED_MODELS)"
    by (rule lookup_items)
  with flux_base_entries assms
  have "lookup be ''lora'' = None \<and> lookup be ''architecture'' = Some (Str b)"
    unfolding list_all_iff by fast
  with be show ?thesis
    by (intro exI conjI) (elim conjE, assumption)+
qed

lemma lookup_flux_dev_nsfw:
  "lookup FEATURED_MODELS ''flux-dev-nsfw''
     = Some [(''repo'', Str ''NikolaSigmoid/FLUX.1-dev-NSFW-Master''),
             (''task'', Str ''image-generation''),
             (''lora'', Bool True),
             (''base_model'', Str ''flux-dev''),
             (''architecture'', Str ''flux-dev''),
             (''backend'', Str ''mlx-flux'')]"
  unfolding FEATURED_MODELS_def lookup_dict_lit by (simp only: dict_eval)

text \<open>
  C4.  Every entry of \<open>FEATURED_MODELS\<close> whose \<open>lora\<close> field is \<open>True\<close> has a
  \<open>base_model\<close> field; the value of that field is a key of \<open>FEATURED_MODELS\<close>; the
  entry under that key does not have \<open>lora = True\<close>; and both entries have the same
  \<open>architecture\<close>.
\<close>

theorem lora_base_model:
  assumes "lookup FEATURED_MODELS n = Some e"
    and "lookup e ''lora'' = Some (Bool True)"
  shows "\<exists>b be a. lookup e ''base_model'' = Some (Str b)
           \<and> lookup FEATURED_MODELS b = Some be
           \<and> lookup be ''lora'' \<noteq> Some (Bool True)
           \<and> lookup e ''architecture'' = Some a
           \<and> lookup be ''architecture'' = Some a"
proof -
  from assms(1) have "(n, e) \<in> set (items FEATURED_MODELS)"
    by (rule lookup_items)
  with lora_entries assms(2)
  have base: "lookup e ''base_model'' = Some (Str ''flux-dev'')
                \<or> lookup e ''base_model'' = Some (Str ''flux-schnell'')"
    and arch: "lookup e ''architecture'' = lookup e ''base_model''"
    unfolding list_all_iff by fast+
  from base obtain b where b: "lookup e ''base_model'' = Some (Str b)"
    and b_cases: "b = ''flux-dev'' \<or> b = ''flux-schnell''"
    by (elim disjE) (rule that, assumption, simp only: simp_thms)+
  from flux_base_lookup [OF b_cases] obtain be
    where be: "lookup FEATURED_MODELS b = Some be"
      and be_lora: "lookup be ''lora'' = None"
      and be_arch: "lookup be ''architecture'' = Some (Str b)"
    by (elim exE conjE)
  from be_lora have not_lora: "lookup be ''lora'' \<noteq> Some (Bool True)"
    by (simp only: option.distinct simp_thms)
  from arch b have e_arch: "lookup e ''architecture'' = Some (Str b)"
    by (simp only:)
  from b be not_lora e_arch be_arch show ?thesis
    by (intro exI conjI)
qed

theorem lora_base_model_witness:
  "lookup FEATURED_MODELS ''flux-dev-nsfw''
     = Some [(''repo'', Str ''NikolaSigmoid/FLUX.1-dev-NSFW-Master''),
             (''task'', Str ''image-generation''),
             (''lora'', Bool True),
             (''base_model'', Str ''flux-dev''),
             (''architecture'', Str ''flux-dev''),
             (''backend'', Str ''mlx-flux'')]
   \<and> (\<exists>be. lookup FEATURED_MODELS ''flux-dev'' = Some be
           \<and> lookup be ''lora'' \<noteq> Some (Bool True)
           \<and> lookup be ''architecture'' = Some (Str ''flux-dev''))"
proof -
  let ?e = "[(''repo'', Str ''NikolaSigmoid/FLUX.1-dev-NSFW-Master''),
             (''task'', Str ''image-generation''),
             (''lora'', Bool True),
             (''base_model'', Str ''flux-dev''),
             (''architecture'', Str ''flux-dev''),
             (''backend'', Str ''mlx-flux'')]"
  have l: "lookup ?e ''lora'' = Some (Bool True)"
    by (simp only: dict_eval)
  have bm: "lookup ?e ''base_model'' = Some (Str ''flux-dev'')"
    by (simp only: dict_eval)
  have ar: "lookup ?e ''architecture'' = Some (Str ''flux-dev'')"
    by (simp only: dict_eval)
  from lora_base_model [OF lookup_flux_dev_nsfw l] obtain b be a
    where b: "lookup ?e ''base_model'' = Some (Str b)"
      and be: "lookup FEATURED_MODELS b = Some be"
      and nl: "lookup be ''lora'' \<noteq> Some (Bool True)"
      and ea: "lookup ?e ''architecture'' = Some a"
      and ba: "lookup be ''architecture'' = Some a"
    by (elim exE conjE)
  from b have b_eq: "b = ''flux-dev''"
    unfolding bm by (simp only: option.inject pyval.inject)
  from ea have a_eq: "a = Str ''flux-dev''"
    unfolding ar by (simp only: option.inject)
  from be nl ba have "\<exists>be. lookup FEATURED_MODELS ''flux-dev'' = Some be
           \<and> lookup be ''lora'' \<noteq> Some (Bool True)
           \<and> lookup be ''architecture'' = Some (Str ''flux-dev'')"
    unfolding b_eq a_eq by (intro exI conjI)
  with lookup_flux_dev_nsfw show ?thesis
    by (intro conjI)
qed

subsection \<open>Fields required by each backend\<close>

lemma gguf_entries:
  "list_all (\<lambda>(n, e). lookup e ''backend'' = Some (Str ''gguf'') \<longrightarrow>
      has_key e ''repo''
      \<and> (lookup e ''task'' = Some (Str ''chat'') \<or> lookup e ''task'' = Some (Str ''embed''))
      \<and> has_key e ''model'' \<noteq> has_key e ''pattern'')
    (items FEATURED_MODELS)"
  unfolding FEATURED_MODELS_def
  by (rule list_all_dict_lit) (simp only: dict_eval)

lemma mlx_flux_entries:
  "list_all (\<lambda>(n, e).
      (lookup e ''backend'' = Some (Str ''mlx-flux'') \<longrightarrow>
         lookup e ''task'' = Some (Str ''image-generation'')
         \<and> has_key e ''architecture'' \<and> has_key e ''repo'')
      \<and> (lookup e ''task'' = Some (Str ''image-generation'') \<longrightarrow> has_key e ''architecture''))
    (items FEATURED_MODELS)"
  unfolding FEATURED_MODELS_def
  by (rule list_all_dict_lit) (simp only: dict_eval)

lemma lookup_qwen3_235b:
  "lookup FEATURED_MODELS ''qwen3-235b-a22b''
     = Some [(''repo'', Str ''unsloth/Qwen3-235B-A22B-Instruct-2507-GGUF''),
             (''pattern'', Str ''Q4_K_M''),
             (''task'', Str ''chat''),
             (''backend'', Str ''gguf'')]"
  unfolding FEATURED_MODELS_def lookup_dict_lit by (simp only: dict_eval)

lemma lookup_flux_schnell:
  "lookup FEATURED_MODELS ''flux-schnell''
     = Some [(''repo'', Str ''NikolaSigmoid/FLUX.1-schnell''),
             (''task'', Str ''image-generation''),
             (''architecture'', Str ''flux-schnell''),
             (''backend'', Str ''mlx-flux'')]"
  unfolding FEATURED_MODELS_def lookup_dict_lit by (simp only: dict_eval)

lemma lookup_nsfw_lab:
  "lookup FEATURED_MODELS ''nsfw-lab''
     = Some [(''repo'', Str ''NikolaSigmoid/NSFW-Lab''),
             (''task'', Str ''image-generation''),
             (''lora'', Bool True),
             (''base_model'', Str ''flux-schnell''),
             (''architecture'', Str ''flux-schnell''),
             (''backend'', Str ''mlx-flux'')]"
  unfolding FEATURED_MODELS_def lookup_dict_lit by (simp only: dict_eval)

text \<open>
  C5.  Every entry of \<open>FEATURED_MODELS\<close> with \<open>backend = "gguf"\<close> has a \<open>repo\<close>
  field, its \<open>task\<close> is \<open>"chat"\<close> or \<open>"embed"\<close>, and exactly one of the fields
  \<open>model\<close> and \<open>pattern\<close> is present.
\<close>

theorem gguf_fields:
  assumes "lookup FEATURED_MODELS n = Some e"
    and "lookup e ''backend'' = Some (Str ''gguf'')"
  shows "has_key e ''repo''
         \<and> (lookup e ''task'' = Some (Str ''chat'') \<or> lookup e ''task'' = Some (Str ''embed''))
         \<and> has_key e ''model'' \<noteq> has_key e ''pattern''"
proof -
  from assms(1) have "(n, e) \<in> set (items FEATURED_MODELS)"
    by (rule lookup_items)
  with gguf_entries assms(2) show ?thesis
    unfolding list_all_iff by fast
qed

theorem gguf_fields_witness:
  "lookup FEATURED_MODELS ''qwen3-235b-a22b''
     = Some [(''repo'', Str ''unsloth/Qwen3-235B-A22B-Instruct-2507-GGUF''),
             (''pattern'', Str ''Q4_K_M''),
             (''task'', Str ''chat''),
             (''backend'', Str ''gguf'')]
   \<and> has_key [(''repo'', Str ''unsloth/Qwen3-235B-A22B-Instruct-2507-GGUF''),
               (''pattern'', Str ''Q4_K_M''),
               (''task'', Str ''chat''),
               (''backend'', Str ''gguf'')] ''repo''
   \<and> has_key [(''repo'', Str ''unsloth/Qwen3-235B-A22B-Instruct-2507-GGUF''),
               (''pattern'', Str ''Q4_K_M''),
               (''task'', Str ''chat''),
               (''backend'', Str ''gguf'')] ''model''
     \<noteq> has_key [(''repo'', Str ''unsloth/Qwen3-235B-A22B-Instruct-2507-GGUF''),
               (''pattern'', Str ''Q4_K_M''),
               (''task'', Str ''chat''),
               (''backend'', Str ''gguf'')] ''pattern''"
proof -
  let ?e = "[(''repo'', Str ''unsloth/Qwen3-235B-A22B-Instruct-2507-GGUF''),
             (''pattern'', Str ''Q4_K_M''),
             (''task'', Str ''chat''),
             (''backend'', Str ''gguf'')]"
  have b: "lookup ?e ''backend'' = Some (Str ''gguf'')"
    by (simp only: dict_eval)
  from gguf_fields [OF lookup_qwen3_235b b] lookup_qwen3_235b show ?thesis
    by (elim conjE) (intro conjI)
qed

text \<open>
  C6.  Every entry of \<open>FEATURED_MODELS\<close> with \<open>backend = "mlx-flux"\<close> has
  \<open>task = "image-generation"\<close>, an \<open>architecture\<close> field and a \<open>repo\<close> field; and
  every entry with \<open>task = "image-generation"\<close> has an \<open>architecture\<close> field.
\<close>

theorem mlx_flux_fields:
  assumes "lookup FEATURED_MODELS n = Some e"
  shows "(lookup e ''backend'' = Some (Str ''mlx-flux'') \<longrightarrow>
            lookup e ''task'' = Some (Str ''image-generation'')
            \<and> has_key e ''architecture'' \<and> has_key e ''repo'')
         \<and> (lookup e ''task'' = Some (Str ''image-generation'') \<longrightarrow> has_key e ''architecture'')"
proof -
  from assms have "(n, e) \<in> set (items FEATURED_MODELS)"
    by (rule lookup_items)
  with mlx_flux_entries show ?thesis
    unfolding list_all_iff by fast
qed

theorem mlx_flux_fields_witness:
  "lookup FEATURED_MODELS ''flux-schnell''
     = Some [(''repo'', Str ''NikolaSigmoid/FLUX.1-schnell''),
             (''task'', Str ''image-generation''),
             (''architecture'', Str ''flux-schnell''),
             (''backend'', Str ''mlx-flux'')]
   \<and> lookup [(''repo'', Str ''NikolaSigmoid/FLUX.1-schnell''),
              (''task'', Str ''image-generation''),
              (''architecture'', Str ''flux-schnell''),
              (''backend'', Str ''mlx-flux'')] ''backend'' = Some (Str ''mlx-flux'')
   \<and> lookup [(''repo'', Str ''NikolaSigmoid/FLUX.1-schnell''),
              (''task'', Str ''image-generation''),
              (''architecture'', Str ''flux-schnell''),
              (''backend'', Str ''mlx-flux'')] ''task'' = Some (Str ''image-generation'')
   \<and> has_key [(''repo'', Str ''NikolaSigmoid/FLUX.1-schnell''),
               (''task'', Str ''image-generation''),
               (''architecture'', Str ''flux-schnell''),
               (''backend'', Str ''mlx-flux'')] ''architecture''
   \<and> has_key [(''repo'', Str ''NikolaSigmoid/FLUX.1-schnell''),
               (''task'', Str ''image-generation''),
               (''architecture'', Str ''flux-schnell''),
               (''backend'', Str ''mlx-flux'')] ''repo''"
proof -
  let ?e = "[(''repo'', Str ''NikolaSigmoid/FLUX.1-schnell''),
             (''task'', Str ''image-generation''),
             (''architecture'', Str ''flux-schnell''),
             (''backend'', Str ''mlx-flux'')]"
  have b: "lookup ?e ''backend'' = Some (Str ''mlx-flux'')"
    by (simp only: dict_eval)
  from mlx_flux_fields [OF lookup_flux_schnell]
  have "lookup ?e ''backend'' = Some (Str ''mlx-flux'') \<longrightarrow>
          lookup ?e ''task'' = Some (Str ''image-generation'')
          \<and> has_key ?e ''architecture'' \<and> has_key ?e ''repo''" ..
  from this [rule_format, OF b] b lookup_flux_schnell show ?thesis
    by (elim conjE) (intro conjI)
qed

text \<open>
  C10.  Every entry of \<open>FEATURED_MODELS\<close> with \<open>lora = True\<close> has
  \<open>backend = "mlx-flux"\<close> and \<open>task = "image-generation"\<close>: the table has no LoRA
  adapter for a chat or embed model.
\<close>

theorem lora_only_mlx_flux:
  assumes "lookup FEATURED_MODELS n = Some e"
    and "lookup e ''lora'' = Some (Bool True)"
  shows "lookup e ''backend'' = Some (Str ''mlx-flux'')
         \<and> lookup e ''task'' = Some (Str ''image-generation'')"
proof -
  from assms(1) have "(n, e) \<in> set (items FEATURED_MODELS)"
    by (rule lookup_items)
  with lora_entries assms(2) show ?thesis
    unfolding list_all_iff by fast
qed

theorem lora_only_mlx_flux_witness:
  "lookup FEATURED_MODELS ''nsfw-lab''
     = Some [(''repo'', Str ''NikolaSigmoid/NSFW-Lab''),
             (''task'', Str ''image-generation''),
             (''lora'', Bool True),
             (''base_model'', Str ''flux-schnell''),
             (''architecture'', Str ''flux-schnell''),
             (''backend'', Str ''mlx-flux'')]
   \<and> lookup [(''repo'', Str ''NikolaSigmoid/NSFW-Lab''),
             (''task'', Str ''image-generation''),
             (''lora'', Bool True),
             (''base_model'', Str ''flux-schnell''),
             (''architecture'', Str ''flux-schnell''),
             (''backend'', Str ''mlx-flux'')] ''lora'' = Some (Bool True)
   \<and> lookup [(''repo'', Str ''NikolaSigmoid/NSFW-Lab''),
             (''task'', Str ''image-generation''),
             (''lora'', Bool True),
             (''base_model'', Str ''flux-schnell''),
             (''architecture'', Str ''flux-schnell''),
             (''backend'', Str ''mlx-flux'')] ''backend'' = Some (Str ''mlx-flux'')"
proof -
  let ?e = "[(''repo'', Str ''NikolaSigmoid/NSFW-Lab''),
             (''task'', Str ''image-generation''),
             (''lora'', Bool True),
             (''base_model'', Str ''flux-schnell''),
             (''architecture'', Str ''flux-schnell''),
             (''backend'', Str ''mlx-flux'')]"
  have l: "lookup ?e ''lora'' = Some (Bool True)"
    by (simp only: dict_eval)
  from lora_only_mlx_flux [OF lookup_nsfw_lab l] l lookup_nsfw_lab show ?thesis
    by (elim conjE) (intro conjI)
qed

section \<open>Lookups that fail and lookups that succeed\<close>

lemma unregistered_hash: "\<not> has_key HASH_TO_MODEL ''unregistered''"
  unfolding HASH_TO_MODEL_def has_key_dict_lit by (simp only: dict_eval)

lemma unregistered_model: "\<not> has_key FEATURED_MODELS ''unregistered''"
  unfolding FEATURED_MODELS_def has_key_dict_lit by (simp only: dict_eval)

lemma lookup_qwen3_embedding_entry:
  "lookup FEATURED_MODELS ''qwen3-embedding-0.6b''
     = Some [(''repo'', Str ''Qwen/Qwen3-Embedding-0.6B-GGUF''),
             (''model'', Str ''Qwen3-Embedding-0.6B-Q8_0.gguf''),
             (''task'', Str ''embed''),
             (''backend'', Str ''gguf'')]"
  unfolding FEATURED_MODELS_def lookup_dict_lit by (simp only: dict_eval)

text \<open>
  C7.  The name \<open>gpt-oss-20b-mlx\<close> is a key of \<open>FEATURED_MODELS\<close> and not a key of
  \<open>MODEL_TO_HASH\<close>; and for every name that is a key of \<open>FEATURED_MODELS\<close> and not a
  key of \<open>MODEL_TO_HASH\<close>, \<open>resolveName\<close> fails with \<open>NoHashForModel\<close>.
\<close>

theorem no_hash_for_model:
  "has_key FEATURED_MODELS ''gpt-oss-20b-mlx''
   \<and> \<not> has_key MODEL_TO_HASH ''gpt-oss-20b-mlx''
   \<and> (\<forall>n. has_key FEATURED_MODELS n \<and> \<not> has_key MODEL_TO_HASH n
          \<longrightarrow> resolveName n = Inl NoHashForModel)"
proof (intro conjI allI impI)
  show "has_key FEATURED_MODELS ''gpt-oss-20b-mlx''"
    by (rule gpt_oss_20b_mlx_catalogued)
next
  show "\<not> has_key MODEL_TO_HASH ''gpt-oss-20b-mlx''"
    by (rule gpt_oss_20b_mlx_not_reverse_key)
next
  fix n
  assume "has_key FEATURED_MODELS n \<and> \<not> has_key MODEL_TO_HASH n"
  then have "lookup MODEL_TO_HASH n = None"
    by (simp add: has_key_def)
  then show "resolveName n = Inl NoHashForModel"
    by (simp add: resolveName_def)
qed

theorem no_hash_for_model_witness:
  "has_key FEATURED_MODELS ''gpt-oss-20b-mlx''
   \<and> \<not> has_key MODEL_TO_HASH ''gpt-oss-20b-mlx''
   \<and> resolveName ''gpt-oss-20b-mlx'' = Inl NoHashForModel"
proof -
  from no_hash_for_model have k: "has_key FEATURED_MODELS ''gpt-oss-20b-mlx''"
    by (rule conjunct1)
  from no_hash_for_model have r: "\<not> has_key MODEL_TO_HASH ''gpt-oss-20b-mlx''"
    by (elim conjE)
  from no_hash_for_model
  have f: "\<forall>n. has_key FEATURED_MODELS n \<and> \<not> has_key MODEL_TO_HASH n
               \<longrightarrow> resolveName n = Inl NoHashForModel"
    by (elim conjE)
  from k r have "has_key FEATURED_MODELS ''gpt-oss-20b-mlx''
      \<and> \<not> has_key MODEL_TO_HASH ''gpt-oss-20b-mlx''" ..
  from f [rule_format, OF this] k r show ?thesis
    by (intro conjI)
qed

text \<open>
  C8.  For every string that is not a key of \<open>HASH_TO_MODEL\<close>, \<open>resolveHash\<close> fails
  with \<open>UnknownHash\<close>; for every string that is not a key of \<open>FEATURED_MODELS\<close>,
  \<open>get\<close> fails with \<open>UnknownModel\<close>.  In neither case is any value returned.
\<close>

theorem unknown_lookups_fail:
  "(\<not> has_key HASH_TO_MODEL h
      \<longrightarrow> resolveHash h = Inl UnknownHash \<and> (\<forall>m. resolveHash h \<noteq> Inr m))
   \<and> (\<not> has_key FEATURED_MODELS n
      \<longrightarrow> get n = Inl UnknownModel \<and> (\<forall>e. get n \<noteq> Inr e))"
proof (rule conjI)
  show "\<not> has_key HASH_TO_MODEL h
      \<longrightarrow> resolveHash h = Inl UnknownHash \<and> (\<forall>m. resolveHash h \<noteq> Inr m)"
  proof (rule impI)
    assume "\<not> has_key HASH_TO_MODEL h"
    then have "lookup HASH_TO_MODEL h = None"
      by (simp add: has_key_def)
    then show "resolveHash h = Inl UnknownHash \<and> (\<forall>m. resolveHash h \<noteq> Inr m)"
      by (simp add: resolveHash_def)
  qed
next
  show "\<not> has_key FEATURED_MODELS n
      \<longrightarrow> get n = Inl UnknownModel \<and> (\<forall>e. get n \<noteq> Inr e)"
  proof (rule impI)
    assume "\<not> has_key FEATURED_MODELS n"
    then have "lookup FEATURED_MODELS n = None"
      by (simp add: has_key_def)
    then show "get n = Inl UnknownModel \<and> (\<forall>e. get n \<noteq> Inr e)"
      by (simp add: get_def)
  qed
qed

theorem unknown_lookups_fail_witness:
  "\<not> has_key HASH_TO_MODEL ''unregistered''
   \<and> resolveHash ''unregistered'' = Inl UnknownHash
   \<and> \<not> has_key FEATURED_MODELS ''unregistered''
   \<and> get ''unregistered'' = Inl UnknownModel"
proof -
  note both = unknown_lookups_fail [of "''unregistered''" "''unregistered''"]
  from both [THEN conjunct1, rule_format, OF unregistered_hash]
  have a: "resolveHash ''unregistered'' = Inl UnknownHash" ..
  from both [THEN conjunct2, rule_format, OF unregistered_model]
  have b: "get ''unregistered'' = Inl UnknownModel" ..
  from unregistered_hash a unregistered_model b show ?thesis
    by (intro conjI)
qed

text \<open>
  C9.  \<open>resolveHash\<close> maps the hash
  \<open>bafkreiacd5mwy4a5wkdmvxsk42nsupes5uf4q3dm52k36mvbhgdrez422y\<close> to the name
  \<open>qwen3-embedding-0.6b\<close>, \<open>resolveName\<close> maps that name back to the hash, and
  \<open>get\<close> of that name returns an entry with task \<open>embed\<close>, backend \<open>gguf\<close>, repo
  \<open>Qwen/Qwen3-Embedding-0.6B-GGUF\<close> and model \<open>Qwen3-Embedding-0.6B-Q8_0.gguf\<close>.
\<close>

theorem qwen3_embedding_lookups:
  "resolveHash ''bafkreiacd5mwy4a5wkdmvxsk42nsupes5uf4q3dm52k36mvbhgdrez422y''
     = Inr ''qwen3-embedding-0.6b''
   \<and> resolveName ''qwen3-embedding-0.6b''
     = Inr ''bafkreiacd5mwy4a5wkdmvxsk42nsupes5uf4q3dm52k36mvbhgdrez422y''
   \<and> (\<exists>e. get ''qwen3-embedding-0.6b'' = Inr e
         \<and> lookup e ''task'' = Some (Str ''embed'')
         \<and> lookup e ''backend'' = Some (Str ''gguf'')
         \<and> lookup e ''repo'' = Some (Str ''Qwen/Qwen3-Embedding-0.6B-GGUF'')
         \<and> lookup e ''model'' = Some (Str ''Qwen3-Embedding-0.6B-Q8_0.gguf''))"
proof (intro conjI)
  show "resolveHash ''bafkreiacd5mwy4a5wkdmvxsk42nsupes5uf4q3dm52k36mvbhgdrez422y''
          = Inr ''qwen3-embedding-0.6b''"
    unfolding resolveHash_def lookup_qwen3_embedding_hash by (simp only: option.case)
next
  have "lookup MODEL_TO_HASH ''qwen3-embedding-0.6b''
          = Some ''bafkreiacd5mwy4a5wkdmvxsk42nsupes5uf4q3dm52k36mvbhgdrez422y''"
    unfolding lookup_inverse by (rule lookup_qwen3_embedding_hash)
  then show "resolveName ''qwen3-embedding-0.6b''
          = Inr ''bafkreiacd5mwy4a5wkdmvxsk42nsupes5uf4q3dm52k36mvbhgdrez422y''"
    unfolding resolveName_def by (simp only: option.case)
next
  let ?e = "[(''repo'', Str ''Qwen/Qwen3-Embedding-0.6B-GGUF''),
             (''model'', Str ''Qwen3-Embedding-0.6B-Q8_0.gguf''),
             (''task'', Str ''embed''),
             (''backend'', Str ''gguf'')]"
  have g: "get ''qwen3-embedding-0.6b'' = Inr ?e"
    unfolding get_def lookup_qwen3_embedding_entry by (simp only: option.case)
  have t: "lookup ?e ''task'' = Some (Str ''embed'')"
    by (simp only: dict_eval)
  have b: "lookup ?e ''backend'' = Some (Str ''gguf'')"
    by (simp only: dict_eval)
  have r: "lookup ?e ''repo'' = Some (Str ''Qwen/Qwen3-Embedding-0.6B-GGUF'')"
    by (simp only: dict_eval)
  have m: "lookup ?e ''model'' = Some (Str ''Qwen3-Embedding-0.6B-Q8_0.gguf'')"
    by (simp only: dict_eval)
  from g t b r m
  show "\<exists>e. get ''qwen3-embedding-0.6b'' = Inr e
         \<and> lookup e ''task'' = Some (Str ''embed'')
         \<and> lookup e ''backend'' = Some (Str ''gguf'')
         \<and> lookup e ''repo'' = Some (Str ''Qwen/Qwen3-Embedding-0.6B-GGUF'')
         \<and> lookup e ''model'' = Some (Str ''Qwen3-Embedding-0.6B-Q8_0.gguf'')"
    by (intro exI conjI)
qed

end
